theory Spec2Isabelle
  imports Main "HOL-Library.Sublist" "HOL-Library.Multiset"
begin

section \<open>Insyd notification backend: data model\<close>

text \<open>
  The collections of the backend (users, events, notifications) are lists of
  documents in insertion order. Dates are milliseconds since the epoch, as the
  JavaScript \<^verbatim>\<open>Date\<close> holds them. Strings are lists of code units, which is
  what \<^verbatim>\<open>length\<close> and \<^verbatim>\<open>substring\<close> count. An absent (undefined or null)
  field is \<open>None\<close>; an optional string is truthy in JavaScript when it is
  present and not empty. The bookkeeping fields that Mongoose adds by itself
  (\<^verbatim>\<open>_id\<close>, \<^verbatim>\<open>__v\<close>, \<^verbatim>\<open>createdAt\<close>, \<^verbatim>\<open>updatedAt\<close>) and the user's profile
  are not part of the model.
\<close>

type_synonym date = int

text \<open>models/User.js: \<^verbatim>\<open>userSchema\<close>.\<close>

record preferences =
  emailNotifications :: bool
  pushNotifications :: bool
  notificationTypes :: "string list"

record user =
  u_userId :: string
  username :: string
  email :: string
  u_preferences :: preferences
  followers :: "string list"
  following :: "string list"

text \<open>models/Event.js: \<^verbatim>\<open>eventSchema\<close>; \<^verbatim>\<open>d_mentionedUsers\<close> is the field
  \<^verbatim>\<open>event.data.mentionedUsers\<close> that the processor reads.\<close>

record event_data =
  d_postId :: "string option"
  d_commentId :: "string option"
  d_content :: "string option"
  d_mentionedUsers :: "string list option"
  d_metadata :: "(string \<times> string) list option"

record event =
  eventId :: string
  e_type :: string
  e_sourceUserId :: string
  e_targetUserId :: "string option"
  e_data :: event_data
  e_timestamp :: date
  processed :: bool
  notificationsGenerated :: "(string \<times> string) list"

text \<open>models/Notification.js: \<^verbatim>\<open>notificationSchema\<close>.\<close>

datatype status = Unread | Read | Dismissed

record notification_data =
  nd_postId :: "string option"
  nd_commentId :: "string option"
  nd_url :: "string option"
  nd_imageUrl :: "string option"
  nd_metadata :: "(string \<times> string) list"

record notification =
  notificationId :: string
  n_userId :: string
  n_type :: string
  n_content :: string
  n_status :: status
  relatedEventId :: "string option"
  n_sourceUserId :: "string option"
  n_data :: notification_data
  n_timestamp :: date
  readAt :: "date option"
  dismissedAt :: "date option"
  expiresAt :: "date option"

section \<open>The environment: clock, identifiers, storage failures\<close>

text \<open>
  Every awaited storage call of the source may reject. \<open>dbcall\<close> names the
  calls, keyed by their main argument, and the environment says which of them
  reject. The environment also holds the wall clock (one instant for all the
  clock reads of one operation), the stream of identifiers that \<^verbatim>\<open>uuidv4()\<close>
  draws from, and \<^verbatim>\<open>process.env.FRONTEND_URL\<close>.
\<close>

datatype dbcall =
    UserFindOne string
  | UserFind string
  | NotificationFindOne string
  | NotificationSave string
  | NotificationDeleteMany
  | EventFindOneAndUpdate string
  | EventFind
  | EventSave string
  | UserSave string
  | UserInsertMany
  | UserDeleteMany
  | UserCount

datatype error = DbError dbcall | ValidationError

record env =
  now :: date
  uuidv4 :: "nat \<Rightarrow> string"
  rejects :: "dbcall \<Rightarrow> bool"
  FRONTEND_URL :: "string option"

record world =
  users :: "user list"
  events :: "event list"
  notifications :: "notification list"
  uuidCalls :: nat

section \<open>models/Notification.js\<close>

text \<open>\<^verbatim>\<open>notificationSchema.methods.markAsRead\<close>: the document after the call,
  at clock reading \<open>t\<close>.\<close>

definition markAsRead :: "date \<Rightarrow> notification \<Rightarrow> notification" where
  "markAsRead t n =
     (if n_status n = Unread then n\<lparr>n_status := Read, readAt := Some t\<rparr> else n)"

text \<open>\<^verbatim>\<open>notificationSchema.methods.dismiss\<close>.\<close>

definition dismiss :: "date \<Rightarrow> notification \<Rightarrow> notification" where
  "dismiss t n = n\<lparr>n_status := Dismissed, dismissedAt := Some t\<rparr>"

text \<open>\<^verbatim>\<open>notificationSchema.statics.markAllAsRead\<close>: the collection after the
  \<^verbatim>\<open>updateMany\<close>.\<close>

definition markAllAsRead :: "date \<Rightarrow> string \<Rightarrow> notification list \<Rightarrow> notification list" where
  "markAllAsRead t uid ns =
     map (\<lambda>n. if n_userId n = uid \<and> n_status n = Unread
               then n\<lparr>n_status := Read, readAt := Some t\<rparr> else n) ns"

text \<open>\<^verbatim>\<open>notificationSchema.statics.cleanupExpired\<close>: \<^verbatim>\<open>deleteMany\<close> with the
  filter \<^verbatim>\<open>expiresAt < new Date()\<close>; the result is the deleted count.\<close>

definition expiredAt :: "date \<Rightarrow> notification \<Rightarrow> bool" where
  "expiredAt t n = (case expiresAt n of None \<Rightarrow> False | Some x \<Rightarrow> x < t)"

definition cleanupExpired :: "env \<Rightarrow> world \<Rightarrow> (error + nat) \<times> world" where
  "cleanupExpired en w =
     (if rejects en NotificationDeleteMany then (Inl (DbError NotificationDeleteMany), w)
      else (Inr (length (filter (expiredAt (now en)) (notifications w))),
            w\<lparr>notifications := filter (\<lambda>n. \<not> expiredAt (now en) n) (notifications w)\<rparr>))"

text \<open>routes/notifications.js, \<^verbatim>\<open>POST /cleanup\<close>: the HTTP status and the
  \<^verbatim>\<open>deletedCount\<close> of the response.\<close>

definition cleanupRoute :: "env \<Rightarrow> world \<Rightarrow> (nat \<times> nat option) \<times> world" where
  "cleanupRoute en w =
     (case cleanupExpired en w of
        (Inl err, w') \<Rightarrow> ((500, None), w')
      | (Inr cnt, w') \<Rightarrow> ((200, Some cnt), w'))"

section \<open>services/notificationProcessor.js\<close>

text \<open>\<^verbatim>\<open>generateNotificationContent\<close>.\<close>

definition generateNotificationContent :: "event \<Rightarrow> user \<Rightarrow> string" where
  "generateNotificationContent ev sourceUser =
     (if e_type ev = ''LIKE'' then username sourceUser @ '' liked your post''
      else if e_type ev = ''COMMENT'' then
        (case d_content (e_data ev) of
           None \<Rightarrow> username sourceUser @ '' commented on your post''
         | Some c \<Rightarrow>
             if c \<noteq> []
             then username sourceUser @ '' commented: \"'' @ take 50 c
                  @ (if length c > 50 then ''...'' else '''') @ ''\"''
             else username sourceUser @ '' commented on your post'')
      else if e_type ev = ''FOLLOW'' then username sourceUser @ '' started following you''
      else if e_type ev = ''POST_CREATE'' then username sourceUser @ '' shared a new post''
      else if e_type ev = ''MENTION'' then username sourceUser @ '' mentioned you in a post''
      else if e_type ev = ''SHARE'' then username sourceUser @ '' shared your post''
      else username sourceUser @ '' performed an action'')"

text \<open>\<^verbatim>\<open>cleanupOldNotifications\<close>: the rejection of \<^verbatim>\<open>deleteMany\<close> is caught
  and logged.\<close>

definition thirtyDays :: int where
  "thirtyDays = 30 * 24 * 60 * 60 * 1000"

definition oldAndSettled :: "date \<Rightarrow> notification \<Rightarrow> bool" where
  "oldAndSettled t n =
     (n_timestamp n < t - thirtyDays \<and> (n_status n = Read \<or> n_status n = Dismissed))"

definition cleanupOldNotifications :: "env \<Rightarrow> world \<Rightarrow> world" where
  "cleanupOldNotifications en w =
     (if rejects en NotificationDeleteMany then w
      else w\<lparr>notifications := filter (\<lambda>n. \<not> oldAndSettled (now en) n) (notifications w)\<rparr>)"

text \<open>models/User.js, \<^verbatim>\<open>userSchema.statics.findByUserId\<close>: \<^verbatim>\<open>findOne\<close> returns the
  first document with that \<^verbatim>\<open>userId\<close>, or null.\<close>

definition findByUserId :: "env \<Rightarrow> user list \<Rightarrow> string \<Rightarrow> error + user option" where
  "findByUserId en us uid =
     (if rejects en (UserFindOne uid) then Inl (DbError (UserFindOne uid))
      else Inr (find (\<lambda>u. u_userId u = uid) us))"

text \<open>\<^verbatim>\<open>shouldReceiveNotification\<close>.\<close>

definition shouldReceiveNotification :: "user \<Rightarrow> string \<Rightarrow> bool" where
  "shouldReceiveNotification u eventType =
     (eventType \<in> set (notificationTypes (u_preferences u)))"

text \<open>The block that the cases LIKE/COMMENT, FOLLOW and SHARE of
  \<^verbatim>\<open>getNotificationRecipients\<close> each spell out: notify the target user, if
  there is one and it is not the source user.\<close>

definition notifyTarget :: "env \<Rightarrow> user list \<Rightarrow> event \<Rightarrow> error + user list" where
  "notifyTarget en us ev =
     (case e_targetUserId ev of
        None \<Rightarrow> Inr []
      | Some t \<Rightarrow>
          if t \<noteq> [] \<and> t \<noteq> e_sourceUserId ev then
            (case findByUserId en us t of
               Inl err \<Rightarrow> Inl err
             | Inr None \<Rightarrow> Inr []
             | Inr (Some targetUser) \<Rightarrow>
                 if shouldReceiveNotification targetUser (e_type ev)
                 then Inr [targetUser] else Inr [])
          else Inr [])"

text \<open>The loop of the MENTION case over \<^verbatim>\<open>event.data.mentionedUsers\<close>; a
  rejected lookup leaves the loop.\<close>

fun notifyMentioned :: "env \<Rightarrow> user list \<Rightarrow> event \<Rightarrow> string list \<Rightarrow> error + user list" where
  "notifyMentioned en us ev [] = Inr []"
| "notifyMentioned en us ev (m # ms) =
     (if m \<noteq> e_sourceUserId ev then
        (case findByUserId en us m of
           Inl err \<Rightarrow> Inl err
         | Inr found \<Rightarrow>
             (case notifyMentioned en us ev ms of
                Inl err \<Rightarrow> Inl err
              | Inr rest \<Rightarrow>
                  (case found of
                     None \<Rightarrow> Inr rest
                   | Some mentionedUser \<Rightarrow>
                       if shouldReceiveNotification mentionedUser (e_type ev)
                       then Inr (mentionedUser # rest) else Inr rest)))
      else notifyMentioned en us ev ms)"

text \<open>\<^verbatim>\<open>getNotificationRecipients\<close>; the parameter \<^verbatim>\<open>sourceUser\<close> is not read by
  the source either.\<close>

definition getNotificationRecipients :: "env \<Rightarrow> user list \<Rightarrow> event \<Rightarrow> user \<Rightarrow> error + user list" where
  "getNotificationRecipients en us ev sourceUser =
     (if e_type ev = ''LIKE'' \<or> e_type ev = ''COMMENT'' then notifyTarget en us ev
      else if e_type ev = ''FOLLOW'' then notifyTarget en us ev
      else if e_type ev = ''POST_CREATE'' then
        (if rejects en (UserFind (e_sourceUserId ev))
         then Inl (DbError (UserFind (e_sourceUserId ev)))
         else Inr (filter (\<lambda>follower. shouldReceiveNotification follower (e_type ev))
                     (filter (\<lambda>u. e_sourceUserId ev \<in> set (following u)) us)))
      else if e_type ev = ''MENTION'' then
        (case d_mentionedUsers (e_data ev) of
           None \<Rightarrow> Inr []
         | Some ms \<Rightarrow> notifyMentioned en us ev ms)
      else if e_type ev = ''SHARE'' then notifyTarget en us ev
      else Inr [])"

text \<open>\<^verbatim>\<open>generateNotificationUrl\<close>.\<close>

definition baseUrl :: "env \<Rightarrow> string" where
  "baseUrl en =
     (case FRONTEND_URL en of
        None \<Rightarrow> ''http://localhost:3000''
      | Some u \<Rightarrow> if u \<noteq> [] then u else ''http://localhost:3000'')"

definition postUrl :: "env \<Rightarrow> event \<Rightarrow> string" where
  "postUrl en ev =
     (case d_postId (e_data ev) of
        None \<Rightarrow> baseUrl en
      | Some p \<Rightarrow> if p \<noteq> [] then baseUrl en @ ''/posts/'' @ p else baseUrl en)"

definition generateNotificationUrl :: "env \<Rightarrow> event \<Rightarrow> string" where
  "generateNotificationUrl en ev =
     (if e_type ev = ''LIKE'' \<or> e_type ev = ''COMMENT'' \<or> e_type ev = ''SHARE''
      then postUrl en ev
      else if e_type ev = ''FOLLOW'' then baseUrl en @ ''/profile/'' @ e_sourceUserId ev
      else if e_type ev = ''POST_CREATE'' then postUrl en ev
      else if e_type ev = ''MENTION'' then postUrl en ev
      else baseUrl en)"

text \<open>The filter of the \<^verbatim>\<open>Notification.findOne\<close> in \<^verbatim>\<open>createNotification\<close>: same
  recipient, source, type and \<^verbatim>\<open>data.postId\<close>, and a timestamp not older than
  five minutes before the clock reading \<open>t\<close>.\<close>

definition fiveMinutes :: int where
  "fiveMinutes = 5 * 60 * 1000"

definition recentDuplicate :: "date \<Rightarrow> event \<Rightarrow> user \<Rightarrow> user \<Rightarrow> notification \<Rightarrow> bool" where
  "recentDuplicate t ev sourceUser targetUser n =
     (n_userId n = u_userId targetUser
      \<and> n_sourceUserId n = Some (u_userId sourceUser)
      \<and> n_type n = e_type ev
      \<and> nd_postId (n_data n) = d_postId (e_data ev)
      \<and> n_timestamp n \<ge> t - fiveMinutes)"

text \<open>The document that \<^verbatim>\<open>createNotification\<close> builds; \<^verbatim>\<open>expiresAt\<close> is the
  schema's default.\<close>

definition newNotification :: "env \<Rightarrow> string \<Rightarrow> event \<Rightarrow> user \<Rightarrow> user \<Rightarrow> notification" where
  "newNotification en nid ev sourceUser targetUser =
     \<lparr> notificationId = nid,
       n_userId = u_userId targetUser,
       n_type = e_type ev,
       n_content = generateNotificationContent ev sourceUser,
       n_status = Unread,
       relatedEventId = Some (eventId ev),
       n_sourceUserId = Some (u_userId sourceUser),
       n_data = \<lparr> nd_postId = d_postId (e_data ev),
                  nd_commentId = d_commentId (e_data ev),
                  nd_url = Some (generateNotificationUrl en ev),
                  nd_imageUrl = None,
                  nd_metadata = (case d_metadata (e_data ev) of None \<Rightarrow> [] | Some m \<Rightarrow> m) \<rparr>,
       n_timestamp = now en,
       readAt = None,
       dismissedAt = None,
       expiresAt = Some (now en + thirtyDays) \<rparr>"

text \<open>\<^verbatim>\<open>createNotification\<close>: \<open>Inr None\<close> is the \<^verbatim>\<open>return null\<close> of the
  debouncing check, \<open>Inl\<close> the rethrown rejection of the query or of the
  save.\<close>

definition createNotification ::
  "env \<Rightarrow> world \<Rightarrow> event \<Rightarrow> user \<Rightarrow> user \<Rightarrow> (error + notification option) \<times> world" where
  "createNotification en w ev sourceUser targetUser =
     (if rejects en (NotificationFindOne (u_userId targetUser))
      then (Inl (DbError (NotificationFindOne (u_userId targetUser))), w)
      else
        (case find (recentDuplicate (now en) ev sourceUser targetUser) (notifications w) of
           Some d \<Rightarrow> (Inr None, w)
         | None \<Rightarrow>
             (let n = newNotification en (uuidv4 en (uuidCalls w)) ev sourceUser targetUser;
                  w1 = w\<lparr>uuidCalls := Suc (uuidCalls w)\<rparr>
              in if rejects en (NotificationSave (u_userId targetUser))
                 then (Inl (DbError (NotificationSave (u_userId targetUser))), w1)
                 else (Inr (Some n), w1\<lparr>notifications := notifications w1 @ [n]\<rparr>))))"

text \<open>The loop of \<^verbatim>\<open>processEvent\<close> over the recipients: a rejection of
  \<^verbatim>\<open>createNotification\<close> is caught and logged, a null result is skipped.\<close>

fun createAll ::
  "env \<Rightarrow> world \<Rightarrow> event \<Rightarrow> user \<Rightarrow> user list \<Rightarrow> notification list \<times> world" where
  "createAll en w ev sourceUser [] = ([], w)"
| "createAll en w ev sourceUser (recipient # rest) =
     (case createNotification en w ev sourceUser recipient of
        (Inl err, w1) \<Rightarrow> createAll en w1 ev sourceUser rest
      | (Inr None, w1) \<Rightarrow> createAll en w1 ev sourceUser rest
      | (Inr (Some n), w1) \<Rightarrow>
          (case createAll en w1 ev sourceUser rest of
             (ns, w2) \<Rightarrow> (n # ns, w2)))"

text \<open>The \<^verbatim>\<open>Event.findOneAndUpdate\<close> of \<^verbatim>\<open>processEvent\<close>: one update of the
  first event with that \<^verbatim>\<open>eventId\<close>, setting both fields.\<close>

fun markProcessed :: "string \<Rightarrow> (string \<times> string) list \<Rightarrow> event list \<Rightarrow> event list" where
  "markProcessed eid gen [] = []"
| "markProcessed eid gen (e # es) =
     (if eventId e = eid
      then e\<lparr>processed := True, notificationsGenerated := gen\<rparr> # es
      else e # markProcessed eid gen es)"

text \<open>\<^verbatim>\<open>processEvent\<close>: \<open>Inl\<close> is a raise, \<open>Inr None\<close> the bare \<^verbatim>\<open>return\<close> for a
  missing source user, \<open>Inr (Some ns)\<close> the returned notifications. The world
  is the one the call leaves behind, also when it raises.\<close>

definition processEvent ::
  "env \<Rightarrow> world \<Rightarrow> event \<Rightarrow> (error + notification list option) \<times> world" where
  "processEvent en w ev =
     (case findByUserId en (users w) (e_sourceUserId ev) of
        Inl err \<Rightarrow> (Inl err, w)
      | Inr None \<Rightarrow> (Inr None, w)
      | Inr (Some sourceUser) \<Rightarrow>
          (case getNotificationRecipients en (users w) ev sourceUser of
             Inl err \<Rightarrow> (Inl err, w)
           | Inr recipients \<Rightarrow>
               (case createAll en w ev sourceUser recipients of
                  (ns, w1) \<Rightarrow>
                    if rejects en (EventFindOneAndUpdate (eventId ev))
                    then (Inl (DbError (EventFindOneAndUpdate (eventId ev))), w1)
                    else (Inr (Some ns),
                          w1\<lparr>events :=
                               markProcessed (eventId ev)
                                 (map (\<lambda>n. (notificationId n, n_userId n)) ns)
                                 (events w1)\<rparr>))))"




section \<open>routes/events.js\<close>

text \<open>The body of a \<^verbatim>\<open>POST /api/events\<close> request; an absent \<^verbatim>\<open>type\<close> or
  \<^verbatim>\<open>sourceUserId\<close> is the empty string, an absent \<^verbatim>\<open>data\<close> is \<open>None\<close>.\<close>

record event_request =
  r_type :: string
  r_sourceUserId :: string
  r_targetUserId :: "string option"
  r_data :: "event_data option"

text \<open>models/Event.js: \<^verbatim>\<open>eventSchema\<close> declares \<^verbatim>\<open>postId\<close>, \<^verbatim>\<open>commentId\<close>,
  \<^verbatim>\<open>content\<close> and \<^verbatim>\<open>metadata\<close> (default \<^verbatim>\<open>{}\<close>) under \<^verbatim>\<open>data\<close>. The schema is
  strict, so the document that \<^verbatim>\<open>new Event({...})\<close> builds keeps these paths
  and no other key of the object it is given: \<^verbatim>\<open>data.mentionedUsers\<close> is
  undefined on every document of the model.\<close>

definition castEventData :: "event_data \<Rightarrow> event_data" where
  "castEventData d =
     \<lparr> d_postId = d_postId d, d_commentId = d_commentId d, d_content = d_content d,
       d_mentionedUsers = None,
       d_metadata = Some (case d_metadata d of None \<Rightarrow> [] | Some m \<Rightarrow> m) \<rparr>"

text \<open>The list \<^verbatim>\<open>validTypes\<close> of the route.\<close>

definition validEventTypes :: "string list" where
  "validEventTypes = [''LIKE'', ''FOLLOW'', ''COMMENT'', ''POST_CREATE'', ''MENTION'', ''SHARE'']"

text \<open>The document that the route builds with \<^verbatim>\<open>new Event({...})\<close>; \<^verbatim>\<open>data\<close>
  defaults to \<^verbatim>\<open>{}\<close>.\<close>

definition newEventDocument :: "env \<Rightarrow> world \<Rightarrow> event_request \<Rightarrow> event" where
  "newEventDocument en w req =
     \<lparr> eventId = uuidv4 en (uuidCalls w),
       e_type = r_type req,
       e_sourceUserId = r_sourceUserId req,
       e_targetUserId = r_targetUserId req,
       e_data = castEventData
                  (case r_data req of
                     None \<Rightarrow> \<lparr> d_postId = None, d_commentId = None, d_content = None,
                               d_mentionedUsers = None, d_metadata = None \<rparr>
                   | Some d \<Rightarrow> d),
       e_timestamp = now en,
       processed = False,
       notificationsGenerated = [] \<rparr>"

text \<open>\<^verbatim>\<open>router.post('/')\<close>: the HTTP status, and the world once the call of
  \<^verbatim>\<open>processEvent\<close> that the route defers with \<^verbatim>\<open>setImmediate\<close> has run; a raise
  of that call is caught and logged.\<close>

definition createEventRoute :: "env \<Rightarrow> world \<Rightarrow> event_request \<Rightarrow> nat \<times> world" where
  "createEventRoute en w req =
     (if r_type req = [] \<or> r_sourceUserId req = [] then (400, w)
      else if r_type req \<notin> set validEventTypes then (400, w)
      else
        (let ev = newEventDocument en w req;
             w1 = w\<lparr>uuidCalls := Suc (uuidCalls w)\<rparr>
         in if rejects en (EventSave (eventId ev)) then (500, w1)
            else (201, snd (processEvent en (w1\<lparr>events := events w1 @ [ev]\<rparr>) ev))))"

section \<open>The writers of the user collection\<close>

text \<open>models/User.js: the enumeration and the default of
  \<^verbatim>\<open>preferences.notificationTypes\<close>, and \<^verbatim>\<open>new User({...})\<close>, which fills in
  the defaults.\<close>

definition notificationTypesEnum :: "string list" where
  "notificationTypesEnum = [''LIKE'', ''FOLLOW'', ''COMMENT'', ''POST_CREATE'', ''MENTION'']"

definition defaultPreferences :: preferences where
  "defaultPreferences =
     \<lparr> emailNotifications = True, pushNotifications = True,
       notificationTypes = [''LIKE'', ''FOLLOW'', ''COMMENT'', ''POST_CREATE'', ''MENTION''] \<rparr>"

definition newUser :: "string \<Rightarrow> string \<Rightarrow> string \<Rightarrow> string list \<Rightarrow> string list \<Rightarrow> user" where
  "newUser uid uname mail frs fng =
     \<lparr> u_userId = uid, username = uname, email = mail,
       u_preferences = defaultPreferences, followers = frs, following = fng \<rparr>"

text \<open>The validators that the schema declares; \<^verbatim>\<open>save()\<close> and \<^verbatim>\<open>insertMany\<close>
  run them before they write.\<close>

definition validTypes :: "string list \<Rightarrow> bool" where
  "validTypes ts = list_all (\<lambda>t. t \<in> set notificationTypesEnum) ts"

definition validateUser :: "user \<Rightarrow> bool" where
  "validateUser u =
     (u_userId u \<noteq> [] \<and> username u \<noteq> [] \<and> 3 \<le> length (username u)
      \<and> length (username u) \<le> 30 \<and> email u \<noteq> []
      \<and> validTypes (notificationTypes (u_preferences u)))"

text \<open>\<^verbatim>\<open>save()\<close> of a new user document; the unique indexes on \<^verbatim>\<open>userId\<close> and
  \<^verbatim>\<open>email\<close> reject a duplicate.\<close>

definition insertUser :: "env \<Rightarrow> user list \<Rightarrow> user \<Rightarrow> error + user list" where
  "insertUser en us u =
     (if \<not> validateUser u then Inl ValidationError
      else if rejects en (UserSave (u_userId u))
              \<or> u_userId u \<in> set (map u_userId us) \<or> email u \<in> set (map email us)
      then Inl (DbError (UserSave (u_userId u)))
      else Inr (us @ [u]))"

text \<open>\<^verbatim>\<open>save()\<close> of a loaded user document writes its modified paths to the
  stored document.\<close>

fun modifyUser :: "string \<Rightarrow> (user \<Rightarrow> user) \<Rightarrow> user list \<Rightarrow> user list" where
  "modifyUser uid f [] = []"
| "modifyUser uid f (u # us) =
     (if u_userId u = uid then f u # us else u # modifyUser uid f us)"

text \<open>\<^verbatim>\<open>userSchema.methods.updatePreferences\<close>: the keys of the request's
  \<^verbatim>\<open>preferences\<close> object override the stored ones.\<close>

record preferences_update =
  p_emailNotifications :: "bool option"
  p_pushNotifications :: "bool option"
  p_notificationTypes :: "string list option"

definition mergePreferences :: "preferences \<Rightarrow> preferences_update \<Rightarrow> preferences" where
  "mergePreferences old p =
     \<lparr> emailNotifications =
         (case p_emailNotifications p of None \<Rightarrow> emailNotifications old | Some b \<Rightarrow> b),
       pushNotifications =
         (case p_pushNotifications p of None \<Rightarrow> pushNotifications old | Some b \<Rightarrow> b),
       notificationTypes =
         (case p_notificationTypes p of None \<Rightarrow> notificationTypes old | Some ts \<Rightarrow> ts) \<rparr>"

definition updatePreferences ::
  "env \<Rightarrow> user list \<Rightarrow> user \<Rightarrow> preferences_update \<Rightarrow> error + user list" where
  "updatePreferences en us u p =
     (let merged = mergePreferences (u_preferences u) p
      in if \<not> validTypes (notificationTypes merged) then Inl ValidationError
         else if rejects en (UserSave (u_userId u)) then Inl (DbError (UserSave (u_userId u)))
         else Inr (modifyUser (u_userId u) (\<lambda>v. v\<lparr>u_preferences := merged\<rparr>) us))"

text \<open>routes/users.js: each route returns its HTTP status and the collection
  it leaves behind. An absent body field is the empty string.\<close>

definition updatePreferencesRoute ::
  "env \<Rightarrow> user list \<Rightarrow> string \<Rightarrow> preferences_update option \<Rightarrow> nat \<times> user list" where
  "updatePreferencesRoute en us uid prefs =
     (case prefs of
        None \<Rightarrow> (400, us)
      | Some p \<Rightarrow>
          (case findByUserId en us uid of
             Inl err \<Rightarrow> (500, us)
           | Inr None \<Rightarrow> (404, us)
           | Inr (Some u) \<Rightarrow>
               (case updatePreferences en us u p of
                  Inl err \<Rightarrow> (500, us)
                | Inr us' \<Rightarrow> (200, us'))))"

definition createUserRoute ::
  "env \<Rightarrow> user list \<Rightarrow> string \<Rightarrow> string \<Rightarrow> string \<Rightarrow> nat \<times> user list" where
  "createUserRoute en us uid uname mail =
     (if uid = [] \<or> uname = [] \<or> mail = [] then (400, us)
      else if rejects en (UserFindOne uid) then (500, us)
      else if list_ex (\<lambda>u. u_userId u = uid \<or> email u = mail \<or> username u = uname) us
      then (409, us)
      else (case insertUser en us (newUser uid uname mail [] []) of
              Inl err \<Rightarrow> (500, us)
            | Inr us' \<Rightarrow> (201, us')))"

definition followRoute :: "env \<Rightarrow> user list \<Rightarrow> string \<Rightarrow> string \<Rightarrow> nat \<times> user list" where
  "followRoute en us uid target =
     (if target = [] then (400, us)
      else if uid = target then (400, us)
      else
        (case findByUserId en us uid of
           Inl err \<Rightarrow> (500, us)
         | Inr mu \<Rightarrow>
             (case findByUserId en us target of
                Inl err \<Rightarrow> (500, us)
              | Inr mt \<Rightarrow>
                  (case (mu, mt) of
                     (Some u, Some t) \<Rightarrow>
                       if rejects en (UserSave uid) then (500, us)
                       else
                         (let us1 = modifyUser uid
                                      (\<lambda>v. v\<lparr>following :=
                                                (if target \<in> set (following u) then following u
                                                 else following u @ [target])\<rparr>) us
                          in if uid \<in> set (followers t) then (200, us1)
                             else if rejects en (UserSave target) then (500, us1)
                             else (200, modifyUser target
                                          (\<lambda>v. v\<lparr>followers := followers t @ [uid]\<rparr>) us1))
                   | _ \<Rightarrow> (404, us)))))"

definition unfollowRoute :: "env \<Rightarrow> user list \<Rightarrow> string \<Rightarrow> string \<Rightarrow> nat \<times> user list" where
  "unfollowRoute en us uid target =
     (if target = [] then (400, us)
      else
        (case findByUserId en us uid of
           Inl err \<Rightarrow> (500, us)
         | Inr mu \<Rightarrow>
             (case findByUserId en us target of
                Inl err \<Rightarrow> (500, us)
              | Inr mt \<Rightarrow>
                  (case (mu, mt) of
                     (Some u, Some t) \<Rightarrow>
                       if rejects en (UserSave uid) then (500, us)
                       else
                         (let us1 = modifyUser uid
                                      (\<lambda>v. v\<lparr>following :=
                                                filter (\<lambda>i. i \<noteq> target) (following u)\<rparr>) us
                          in if rejects en (UserSave target) then (500, us1)
                             else (200, modifyUser target
                                          (\<lambda>v. v\<lparr>followers :=
                                                    filter (\<lambda>i. i \<noteq> uid) (followers t)\<rparr>) us1))
                   | _ \<Rightarrow> (404, us)))))"

text \<open>services/seedService.js: the sample users, their insertion into an
  empty collection by \<^verbatim>\<open>seedDatabase\<close>, and \<^verbatim>\<open>clearDatabase\<close>.\<close>

definition sampleUsers :: "user list" where
  "sampleUsers =
     [ newUser ''user1'' ''alex_architect'' ''alex@example.com''
         [''user2'', ''user3''] [''user2'', ''user4''],
       newUser ''user2'' ''priya_designer'' ''priya@example.com''
         [''user1'', ''user3'', ''user4''] [''user1''],
       newUser ''user3'' ''rohit_urban'' ''rohit@example.com''
         [''user4''] [''user1'', ''user2''],
       newUser ''user4'' ''maya_sustainable'' ''maya@example.com''
         [''user1''] [''user2'', ''user3''],
       newUser ''user5'' ''demo_user'' ''demo@example.com''
         [] [''user1'', ''user2''] ]"

definition seedUsers :: "env \<Rightarrow> user list \<Rightarrow> user list" where
  "seedUsers en us =
     (if rejects en UserCount then us
      else if length us > 0 then us
      else if rejects en UserInsertMany \<or> \<not> list_all validateUser sampleUsers then us
      else us @ sampleUsers)"

definition clearUsers :: "env \<Rightarrow> user list \<Rightarrow> user list" where
  "clearUsers en us = (if rejects en UserDeleteMany then us else [])"

text \<open>The user collections that these writers can produce from the empty
  one.\<close>

inductive reachableUsers :: "user list \<Rightarrow> bool" where
  initial: "reachableUsers []"
| created: "reachableUsers us \<Longrightarrow> reachableUsers (snd (createUserRoute en us uid uname mail))"
| updated: "reachableUsers us \<Longrightarrow> reachableUsers (snd (updatePreferencesRoute en us uid prefs))"
| followed: "reachableUsers us \<Longrightarrow> reachableUsers (snd (followRoute en us uid target))"
| unfollowed: "reachableUsers us \<Longrightarrow> reachableUsers (snd (unfollowRoute en us uid target))"
| seeded: "reachableUsers us \<Longrightarrow> reachableUsers (seedUsers en us)"
| cleared: "reachableUsers us \<Longrightarrow> reachableUsers (clearUsers en us)"

text \<open>The invariant of the user collection: the stored notification types
  are among the enumerated ones.\<close>

definition typesOk :: "user \<Rightarrow> bool" where
  "typesOk u = validTypes (notificationTypes (u_preferences u))"

section \<open>The specification's vocabulary\<close>

text \<open>The status transitions that the specification allows, and staying in
  the same status.\<close>

definition statusStep :: "status \<Rightarrow> status \<Rightarrow> bool" where
  "statusStep s s' =
     (s' = s \<or> (s = Unread \<and> s' = Read) \<or> (s \<noteq> Dismissed \<and> s' = Dismissed))"

text \<open>The tuple that the specification's deduplication speaks of: a
  notification for the same recipient, source user, type and \<^verbatim>\<open>data.postId\<close> as
  the one that the event would produce.\<close>

definition sameCause :: "event \<Rightarrow> user \<Rightarrow> user \<Rightarrow> notification \<Rightarrow> bool" where
  "sameCause ev sourceUser targetUser n =
     (n_userId n = u_userId targetUser
      \<and> n_sourceUserId n = Some (u_userId sourceUser)
      \<and> n_type n = e_type ev
      \<and> nd_postId (n_data n) = d_postId (e_data ev))"



section \<open>Sample data\<close>

text \<open>An environment in which no storage call rejects, at clock reading
  \<open>t\<close>; the k-th identifier drawn is \<^verbatim>\<open>id\<close> followed by k strokes.\<close>

definition calmEnv :: "date \<Rightarrow> env" where
  "calmEnv t =
     \<lparr> now = t, uuidv4 = (\<lambda>k. ''id'' @ replicate k (CHR ''|'')),
       rejects = (\<lambda>c. False), FRONTEND_URL = None \<rparr>"

text \<open>The same, except that every save of a notification for \<open>uid\<close>
  rejects.\<close>

definition faultyEnv :: "date \<Rightarrow> string \<Rightarrow> env" where
  "faultyEnv t uid =
     \<lparr> now = t, uuidv4 = (\<lambda>k. ''id'' @ replicate k (CHR ''|'')),
       rejects = (\<lambda>c. c = NotificationSave uid), FRONTEND_URL = None \<rparr>"


text \<open>An empty \<^verbatim>\<open>data\<close> object, and a new, unprocessed event object.\<close>

definition noData :: event_data where
  "noData = \<lparr> d_postId = None, d_commentId = None, d_content = None,
              d_mentionedUsers = None, d_metadata = None \<rparr>"

definition newEvent :: "string \<Rightarrow> string \<Rightarrow> string \<Rightarrow> string option \<Rightarrow> event_data \<Rightarrow> date \<Rightarrow> event" where
  "newEvent eid ty src tgt d t =
     \<lparr> eventId = eid, e_type = ty, e_sourceUserId = src, e_targetUserId = tgt,
       e_data = d, e_timestamp = t, processed = False, notificationsGenerated = [] \<rparr>"

text \<open>The sample users by name.\<close>

definition alex :: user where
  "alex = newUser ''user1'' ''alex_architect'' ''alex@example.com''
            [''user2'', ''user3''] [''user2'', ''user4'']"

definition rohit :: user where
  "rohit = newUser ''user3'' ''rohit_urban'' ''rohit@example.com''
             [''user4''] [''user1'', ''user2'']"

definition maya :: user where
  "maya = newUser ''user4'' ''maya_sustainable'' ''maya@example.com''
            [''user1''] [''user2'', ''user3'']"

definition priya :: user where
  "priya = newUser ''user2'' ''priya_designer'' ''priya@example.com''
             [''user1'', ''user3'', ''user4''] [''user1'']"

definition demo :: user where
  "demo = newUser ''user5'' ''demo_user'' ''demo@example.com'' [] [''user1'', ''user2'']"

text \<open>A COMMENT event whose text has 60 characters.\<close>

definition longComment :: event where
  "longComment =
     newEvent ''e1'' ''COMMENT'' ''user4'' (Some ''user2'')
       (noData\<lparr> d_postId := Some ''post456'',
                d_content := Some ''Love the use of natural lighting in this design, well done!!'' \<rparr>)
       1000"

text \<open>The same with a short and with an empty text.\<close>

definition shortComment :: event where
  "shortComment =
     newEvent ''e10'' ''COMMENT'' ''user4'' (Some ''user2'')
       (noData\<lparr> d_postId := Some ''post456'', d_content := Some ''Nice!'' \<rparr>) 1000"

definition emptyComment :: event where
  "emptyComment =
     newEvent ''e11'' ''COMMENT'' ''user4'' (Some ''user2'')
       (noData\<lparr> d_postId := Some ''post456'', d_content := Some [] \<rparr>) 1000"

text \<open>A notification of the seed data, as stored at clock reading 0.\<close>

definition likeNote :: "status \<Rightarrow> notification" where
  "likeNote s =
     \<lparr> notificationId = ''n2'', n_userId = ''user1'', n_type = ''LIKE'',
       n_content = ''rohit_urban liked your post'', n_status = s,
       relatedEventId = Some ''e0'', n_sourceUserId = Some ''user3'',
       n_data = \<lparr> nd_postId = Some ''post123'', nd_commentId = None,
                  nd_url = Some ''http://localhost:3000/posts/post123'',
                  nd_imageUrl = None, nd_metadata = [] \<rparr>,
       n_timestamp = 0, readAt = None, dismissedAt = None,
       expiresAt = Some 2592000000 \<rparr>"

definition noteWorld :: "status \<Rightarrow> world" where
  "noteWorld s = \<lparr> users = sampleUsers, events = [], notifications = [likeNote s],
                   uuidCalls = 0 \<rparr>"


text \<open>A world that holds the sample users and nothing else.\<close>

definition sampleWorld :: world where
  "sampleWorld = \<lparr> users = sampleUsers, events = [], notifications = [], uuidCalls = 0 \<rparr>"

text \<open>The specification's example of a mention, of user1, user2 and user3 by
  user2: as the body of a request to \<^verbatim>\<open>POST /api/events\<close>, and as a plain
  object that carries \<^verbatim>\<open>data.mentionedUsers\<close>. Only a direct call of the
  exported \<^verbatim>\<open>processEvent\<close> can pass the plain object; no document of the Event
  model has the field.\<close>

definition mentionRequest :: event_request where
  "mentionRequest =
     \<lparr> r_type = ''MENTION'', r_sourceUserId = ''user2'', r_targetUserId = None,
       r_data = Some (noData\<lparr> d_postId := Some ''post999'',
                              d_mentionedUsers := Some [''user1'', ''user2'', ''user3''] \<rparr>) \<rparr>"

definition mentionEvent :: event where
  "mentionEvent =
     newEvent ''e2'' ''MENTION'' ''user2'' None
       (noData\<lparr> d_postId := Some ''post999'',
                d_mentionedUsers := Some [''user1'', ''user2'', ''user3''] \<rparr>)
       1000"

text \<open>Event objects that carry only fields which the Event schema declares: a
  like of one's own post, a share, a like by a user that does not exist, and
  a like of another user's post.\<close>

definition selfLike :: event where
  "selfLike = newEvent ''e3'' ''LIKE'' ''user1'' (Some ''user1'')
                (noData\<lparr> d_postId := Some ''post123'' \<rparr>) 1000"

definition shareEvent :: event where
  "shareEvent = newEvent ''e4'' ''SHARE'' ''user3'' (Some ''user1'')
                  (noData\<lparr> d_postId := Some ''post123'' \<rparr>) 1000"


definition likeEvent :: event where
  "likeEvent = newEvent ''e6'' ''LIKE'' ''user3'' (Some ''user1'')
                  (noData\<lparr> d_postId := Some ''post123'' \<rparr>) 1000"

text \<open>A second like of the same post by the same user, the notification that
  the first like produces at clock reading 1000, and the world after it.\<close>

definition likeAgain :: event where
  "likeAgain = newEvent ''e7'' ''LIKE'' ''user3'' (Some ''user1'')
                  (noData\<lparr> d_postId := Some ''post123'' \<rparr>) 200000"

definition firstLikeNote :: notification where
  "firstLikeNote = newNotification (calmEnv 1000) ''id'' likeEvent rohit alex"

definition afterFirstLike :: world where
  "afterFirstLike = sampleWorld\<lparr> notifications := [firstLikeNote], uuidCalls := 1 \<rparr>"











section \<open>The comment excerpt\<close>

text \<open>
  Claim C8. For a COMMENT event that carries a text \<open>c\<close>, the generated content is
  the source user's display name, a fixed lead-in, an excerpt of \<open>c\<close>, a marker and
  a closing part. The excerpt is a prefix of \<open>c\<close> of at most 50 characters; when
  \<open>c\<close> has at most 50 characters the excerpt is \<open>c\<close> itself and there is no
  marker; when \<open>c\<close> is longer the excerpt is its first 50 characters and the marker
  is three dots. For a non-empty text the lead-in is \<^verbatim>\<open> commented: "\<close> and the
  closing part the quote; the empty text gives the form without a quotation.
\<close>

theorem comment_content_excerpt:
  assumes "e_type ev = ''COMMENT''" and "d_content (e_data ev) = Some c"
  shows "\<exists>pre excerpt marker post.
           generateNotificationContent ev su = pre @ excerpt @ marker @ post
           \<and> prefix (username su) pre
           \<and> prefix excerpt c \<and> length excerpt \<le> 50
           \<and> (length c \<le> 50 \<longrightarrow> excerpt = c \<and> marker = [])
           \<and> (50 < length c \<longrightarrow> excerpt = take 50 c \<and> marker = ''...'')
           \<and> (c \<noteq> [] \<longrightarrow> pre = username su @ '' commented: \"'' \<and> post = ''\"'')
           \<and> (c = [] \<longrightarrow> pre = username su @ '' commented on your post'' \<and> post = [])"
proof (cases "c = []")
  case True
  with assms show ?thesis
    by (simp add: generateNotificationContent_def)
next
  case False
  let ?pre = "username su @ '' commented: \"''"
  let ?marker = "if 50 < length c then ''...'' else []"
  have "generateNotificationContent ev su = ?pre @ take 50 c @ ?marker @ ''\"''"
    using assms False by (simp add: generateNotificationContent_def)
  moreover have "prefix (take 50 c) c" by (rule take_is_prefix)
  ultimately show ?thesis using False
    apply (rule_tac x = "?pre" in exI)
    apply (rule_tac x = "take 50 c" in exI)
    apply (rule_tac x = "?marker" in exI)
    apply (rule_tac x = "[CHR 0x22]" in exI)
    apply simp
    done
qed

theorem comment_content_excerpt_witness:
  "e_type longComment = ''COMMENT''
   \<and> d_content (e_data longComment)
       = Some ''Love the use of natural lighting in this design, well done!!''
   \<and> generateNotificationContent longComment maya
       = ''maya_sustainable commented: \"Love the use of natural lighting in this design, w...\"''
   \<and> e_type shortComment = ''COMMENT'' \<and> d_content (e_data shortComment) = Some ''Nice!''
   \<and> generateNotificationContent shortComment maya = ''maya_sustainable commented: \"Nice!\"''
   \<and> e_type emptyComment = ''COMMENT'' \<and> d_content (e_data emptyComment) = Some []
   \<and> generateNotificationContent emptyComment maya = ''maya_sustainable commented on your post''"
proof -
  let ?c = "''Love the use of natural lighting in this design, well done!!''"
  have h1: "e_type longComment = ''COMMENT''"
    by (simp add: longComment_def newEvent_def)
  have h2: "d_content (e_data longComment) = Some ?c"
    by (simp add: longComment_def newEvent_def noData_def)
  have s1: "e_type shortComment = ''COMMENT''"
    by (simp add: shortComment_def newEvent_def)
  have s2: "d_content (e_data shortComment) = Some ''Nice!''"
    by (simp add: shortComment_def newEvent_def noData_def)
  have e1: "e_type emptyComment = ''COMMENT''"
    by (simp add: emptyComment_def newEvent_def)
  have e2: "d_content (e_data emptyComment) = Some []"
    by (simp add: emptyComment_def newEvent_def noData_def)
  have u: "username maya = ''maya_sustainable''"
    by (simp add: maya_def newUser_def)
  from comment_content_excerpt [OF h1 h2, of maya] obtain pre excerpt marker post where
    "generateNotificationContent longComment maya = pre @ excerpt @ marker @ post"
    "50 < length ?c \<longrightarrow> excerpt = take 50 ?c \<and> marker = ''...''"
    "?c \<noteq> [] \<longrightarrow> pre = username maya @ '' commented: \"'' \<and> post = ''\"''"
    by blast
  then have long: "generateNotificationContent longComment maya
               = ''maya_sustainable commented: \"Love the use of natural lighting in this design, w...\"''"
    by (simp add: u)
  from comment_content_excerpt [OF s1 s2, of maya] obtain pre excerpt marker post where
    "generateNotificationContent shortComment maya = pre @ excerpt @ marker @ post"
    "length ''Nice!'' \<le> 50 \<longrightarrow> excerpt = ''Nice!'' \<and> marker = []"
    "''Nice!'' \<noteq> [] \<longrightarrow> pre = username maya @ '' commented: \"'' \<and> post = ''\"''"
    by blast
  then have short: "generateNotificationContent shortComment maya
                      = ''maya_sustainable commented: \"Nice!\"''"
    by (simp add: u)
  from comment_content_excerpt [OF e1 e2, of maya] obtain pre excerpt marker post where
    "generateNotificationContent emptyComment maya = pre @ excerpt @ marker @ post"
    "length ([] :: string) \<le> 50 \<longrightarrow> excerpt = [] \<and> marker = []"
    "([] :: string) = [] \<longrightarrow> pre = username maya @ '' commented on your post'' \<and> post = []"
    by blast
  then have empty: "generateNotificationContent emptyComment maya
                      = ''maya_sustainable commented on your post''"
    by (simp add: u)
  from h1 h2 s1 s2 e1 e2 long short empty show ?thesis by simp
qed

section \<open>The status of a notification\<close>

text \<open>
  Claim C6. \<^verbatim>\<open>markAsRead\<close>, \<^verbatim>\<open>dismiss\<close> and \<^verbatim>\<open>markAllAsRead\<close> move the status of a
  notification only from unread to read and from unread or read to dismissed:
  a dismissed notification stays dismissed, a read one never becomes unread
  again, \<^verbatim>\<open>markAllAsRead\<close> leaves every notification that is not unread as it is,
  and \<^verbatim>\<open>markAsRead\<close> on a read notification, so also a second \<^verbatim>\<open>markAsRead\<close>,
  returns the document unchanged, \<^verbatim>\<open>readAt\<close> included.
\<close>

theorem status_monotone:
  "statusStep (n_status n) (n_status (markAsRead t n))
   \<and> statusStep (n_status n) (n_status (dismiss t n))
   \<and> length (markAllAsRead t uid ns) = length ns
   \<and> (\<forall>i < length ns. statusStep (n_status (ns ! i)) (n_status (markAllAsRead t uid ns ! i)))
   \<and> (n_status n = Dismissed \<longrightarrow>
        n_status (markAsRead t n) = Dismissed \<and> n_status (dismiss t n) = Dismissed)
   \<and> (n_status n = Read \<longrightarrow>
        n_status (markAsRead t n) \<noteq> Unread \<and> n_status (dismiss t n) \<noteq> Unread)
   \<and> (\<forall>i < length ns. n_status (ns ! i) \<noteq> Unread \<longrightarrow> markAllAsRead t uid ns ! i = ns ! i)
   \<and> (n_status n = Read \<longrightarrow> markAsRead t n = n)
   \<and> markAsRead t' (markAsRead t n) = markAsRead t n"
  by (auto simp: statusStep_def markAsRead_def dismiss_def markAllAsRead_def)

theorem status_monotone_witness:
  "statusStep Unread (n_status (markAsRead 5 (likeNote Unread)))
   \<and> n_status (dismiss 7 (likeNote Dismissed)) = Dismissed
   \<and> n_status (markAsRead 7 (likeNote Dismissed)) = Dismissed
   \<and> markAllAsRead 9 ''user1'' [likeNote Read] ! 0 = likeNote Read
   \<and> markAsRead 9 (likeNote Read) = likeNote Read
   \<and> readAt (markAsRead 9 (markAsRead 5 (likeNote Unread))) = Some 5"
proof -
  have r: "n_status (likeNote Read) = Read" and d: "n_status (likeNote Dismissed) = Dismissed"
    and u: "n_status (likeNote Unread) = Unread"
    by (simp_all add: likeNote_def)
  have "readAt (markAsRead 5 (likeNote Unread)) = Some 5"
    by (simp add: markAsRead_def likeNote_def)
  moreover note status_monotone [of "likeNote Unread" 5 "''user1''" "[likeNote Read]" 9]
    status_monotone [of "likeNote Dismissed" 7 "''user1''" "[]" 7]
    status_monotone [of "likeNote Read" 9 "''user1''" "[likeNote Read]" 9]
  ultimately show ?thesis using r d u by simp
qed

section \<open>The retention sweep\<close>

text \<open>
  Claim C7. \<^verbatim>\<open>cleanupOldNotifications\<close> only deletes: every notification it removes
  has status read or dismissed and a timestamp more than 30 days
  (2592000000 ms) before the clock reading, the unread notifications are the
  same before and after whatever their age, and when the delete is not
  rejected every read or dismissed notification older than the horizon is
  gone. Users and events are not touched.
\<close>

theorem retention_sweep_spares_unread:
  "set (notifications (cleanupOldNotifications en w)) \<subseteq> set (notifications w)
   \<and> (\<forall>n \<in> set (notifications w). n \<notin> set (notifications (cleanupOldNotifications en w)) \<longrightarrow>
         (n_status n = Read \<or> n_status n = Dismissed) \<and> n_timestamp n < now en - 2592000000)
   \<and> filter (\<lambda>n. n_status n = Unread) (notifications (cleanupOldNotifications en w))
       = filter (\<lambda>n. n_status n = Unread) (notifications w)
   \<and> (\<not> rejects en NotificationDeleteMany \<longrightarrow>
        (\<forall>n \<in> set (notifications w).
           (n_status n = Read \<or> n_status n = Dismissed) \<and> n_timestamp n < now en - 2592000000 \<longrightarrow>
           n \<notin> set (notifications (cleanupOldNotifications en w))))
   \<and> users (cleanupOldNotifications en w) = users w
   \<and> events (cleanupOldNotifications en w) = events w"
  by (auto simp: cleanupOldNotifications_def oldAndSettled_def thirtyDays_def
           intro: filter_cong)

theorem retention_sweep_spares_unread_witness:
  "likeNote Unread \<in> set (notifications (cleanupOldNotifications (calmEnv 9000000000) (noteWorld Unread)))
   \<and> notifications (cleanupOldNotifications (calmEnv 9000000000) (noteWorld Read)) = []"
proof -
  let ?en = "calmEnv 9000000000"
  have a: "filter (\<lambda>n. n_status n = Unread) (notifications (noteWorld Unread)) = [likeNote Unread]"
    by (simp add: noteWorld_def likeNote_def)
  have b: "notifications (noteWorld Read) = [likeNote Read]" "n_status (likeNote Read) = Read"
    "n_timestamp (likeNote Read) < now ?en - 2592000000" "\<not> rejects ?en NotificationDeleteMany"
    by (simp_all add: noteWorld_def likeNote_def calmEnv_def)
  from retention_sweep_spares_unread [of ?en "noteWorld Unread"] a
  have "filter (\<lambda>n. n_status n = Unread)
          (notifications (cleanupOldNotifications ?en (noteWorld Unread))) = [likeNote Unread]"
    by simp
  then have "likeNote Unread \<in> set (filter (\<lambda>n. n_status n = Unread)
          (notifications (cleanupOldNotifications ?en (noteWorld Unread))))"
    by simp
  then have c: "likeNote Unread \<in> set (notifications (cleanupOldNotifications ?en (noteWorld Unread)))"
    by simp
  from retention_sweep_spares_unread [of ?en "noteWorld Read"] b
  have "set (notifications (cleanupOldNotifications ?en (noteWorld Read))) \<subseteq> {likeNote Read}"
    "likeNote Read \<notin> set (notifications (cleanupOldNotifications ?en (noteWorld Read)))"
    by auto
  then have "notifications (cleanupOldNotifications ?en (noteWorld Read)) = []"
    by (cases "notifications (cleanupOldNotifications ?en (noteWorld Read))") auto
  with c show ?thesis by simp
qed

section \<open>The expiry cleanup\<close>

text \<open>
  Claim C10. \<^verbatim>\<open>Notification.cleanupExpired\<close>, as called by \<^verbatim>\<open>POST /cleanup\<close>, removes
  every notification whose \<^verbatim>\<open>expiresAt\<close> is before the clock reading, whatever its
  status: the route answers 200 with the number of expired notifications and
  leaves exactly the ones that are not expired. An expired notification that
  is unread is removed by it, while the retention sweep keeps it.
\<close>

theorem cleanup_expired_ignores_status:
  assumes "\<not> rejects en NotificationDeleteMany"
    and "n \<in> set (notifications w)" and "expiresAt n = Some x" and "x < now en"
  shows "n \<notin> set (notifications (snd (cleanupRoute en w)))
         \<and> fst (cleanupRoute en w)
             = (200, Some (length (filter (expiredAt (now en)) (notifications w))))
         \<and> set (notifications (snd (cleanupRoute en w)))
             = {m \<in> set (notifications w). \<not> expiredAt (now en) m}
         \<and> (n_status n = Unread \<longrightarrow> n \<in> set (notifications (cleanupOldNotifications en w)))"
  using assms
  by (auto simp: cleanupRoute_def cleanupExpired_def expiredAt_def
                 cleanupOldNotifications_def oldAndSettled_def)

theorem cleanup_expired_ignores_status_witness:
  "likeNote Unread \<in> set (notifications (noteWorld Unread))
   \<and> n_status (likeNote Unread) = Unread
   \<and> expiresAt (likeNote Unread) = Some 2592000000
   \<and> cleanupRoute (calmEnv 9000000000) (noteWorld Unread)
       = ((200, Some 1), (noteWorld Unread)\<lparr>notifications := []\<rparr>)
   \<and> likeNote Unread \<in> set (notifications (cleanupOldNotifications (calmEnv 9000000000) (noteWorld Unread)))"
proof -
  let ?en = "calmEnv 9000000000"
  have h: "\<not> rejects ?en NotificationDeleteMany"
    "likeNote Unread \<in> set (notifications (noteWorld Unread))"
    "expiresAt (likeNote Unread) = Some 2592000000" "2592000000 < now ?en"
    by (simp_all add: noteWorld_def likeNote_def calmEnv_def)
  have s: "n_status (likeNote Unread) = Unread" by (simp add: likeNote_def)
  have r: "cleanupRoute ?en (noteWorld Unread) = ((200, Some 1), (noteWorld Unread)\<lparr>notifications := []\<rparr>)"
    by (simp add: cleanupRoute_def cleanupExpired_def expiredAt_def noteWorld_def likeNote_def calmEnv_def)
  from cleanup_expired_ignores_status [OF h] s h r show ?thesis by simp
qed

section \<open>Evaluation of the model on concrete data\<close>

lemmas eval_defs = processEvent_def findByUserId_def getNotificationRecipients_def
  notifyTarget_def shouldReceiveNotification_def createNotification_def recentDuplicate_def
  newNotification_def generateNotificationContent_def generateNotificationUrl_def
  postUrl_def baseUrl_def fiveMinutes_def thirtyDays_def Let_def
  calmEnv_def faultyEnv_def sampleUsers_def newUser_def defaultPreferences_def
  newEvent_def noData_def

section \<open>What a call leaves unchanged\<close>

lemma createNotification_frame:
  assumes "createNotification en w ev su tu = (r, w')"
  shows "users w' = users w" and "events w' = events w"
    and "\<And>n. r = Inr (Some n) \<Longrightarrow>
           notifications w' = notifications w @ [n]
           \<and> n = newNotification en (uuidv4 en (uuidCalls w)) ev su tu"
    and "(\<forall>n. r \<noteq> Inr (Some n)) \<Longrightarrow> notifications w' = notifications w"
  using assms
  by (auto simp: createNotification_def Let_def split: if_splits option.splits)

lemma createAll_frame:
  "createAll en w ev su rs = (ns, w') \<Longrightarrow>
     users w' = users w \<and> events w' = events w
     \<and> notifications w' = notifications w @ ns
     \<and> (\<forall>n \<in> set ns. \<exists>r \<in> set rs. \<exists>nid. n = newNotification en nid ev su r)"
proof (induction rs arbitrary: w ns w')
  case Nil
  then show ?case by simp
next
  case (Cons r rs)
  obtain res w1 where c: "createNotification en w ev su r = (res, w1)"
    by (cases "createNotification en w ev su r")
  note f = createNotification_frame [OF c]
  show ?case
  proof (cases "\<exists>n. res = Inr (Some n)")
    case True
    then obtain n where n: "res = Inr (Some n)" by blast
    obtain ns2 w2 where r2: "createAll en w1 ev su rs = (ns2, w2)"
      by (cases "createAll en w1 ev su rs")
    from Cons.prems c n r2 have eq: "ns = n # ns2" "w' = w2" by simp_all
    from Cons.IH [OF r2] f(1,2) f(3) [OF n] eq show ?thesis by auto
  next
    case False
    with Cons.prems c have r2: "createAll en w1 ev su rs = (ns, w')"
      by (cases res) (auto split: option.splits)
    from False have "\<forall>n. res \<noteq> Inr (Some n)" by blast
    from Cons.IH [OF r2] f(1,2) f(4) [OF this] show ?thesis by auto
  qed
qed

lemma processEvent_frame:
  "\<exists>ns. users (snd (processEvent en w ev)) = users w
     \<and> notifications (snd (processEvent en w ev)) = notifications w @ ns
     \<and> (\<forall>ns'. fst (processEvent en w ev) = Inr (Some ns') \<longrightarrow> ns' = ns)
     \<and> (ns \<noteq> [] \<longrightarrow>
          (\<exists>su rs. findByUserId en (users w) (e_sourceUserId ev) = Inr (Some su)
             \<and> getNotificationRecipients en (users w) ev su = Inr rs
             \<and> (\<forall>n \<in> set ns. \<exists>r \<in> set rs. \<exists>nid. n = newNotification en nid ev su r)))"
proof (cases "findByUserId en (users w) (e_sourceUserId ev)")
  case (Inl err)
  then show ?thesis by (simp add: processEvent_def)
next
  case (Inr found)
  show ?thesis
  proof (cases found)
    case None
    with Inr show ?thesis by (simp add: processEvent_def)
  next
    case (Some su)
    show ?thesis
    proof (cases "getNotificationRecipients en (users w) ev su")
      case (Inl err)
      with Inr Some show ?thesis by (simp add: processEvent_def)
    next
      case rs: (Inr rs)
      obtain ns w1 where ca: "createAll en w ev su rs = (ns, w1)"
        by (cases "createAll en w ev su rs")
      from createAll_frame [OF ca] Inr Some rs ca show ?thesis
        by (auto simp: processEvent_def intro!: exI[of _ ns])
    qed
  qed
qed

section \<open>The recipients of an event\<close>

lemma notifyTarget_members:
  "notifyTarget en us ev = Inr rs \<Longrightarrow>
     \<forall>r \<in> set rs. r \<in> set us \<and> shouldReceiveNotification r (e_type ev)
                  \<and> Some (u_userId r) = e_targetUserId ev
                  \<and> u_userId r \<noteq> e_sourceUserId ev"
  by (auto simp: notifyTarget_def findByUserId_def find_Some_iff
           split: option.splits if_splits sum.splits)

lemma notifyTarget_self:
  "e_targetUserId ev = Some (e_sourceUserId ev) \<Longrightarrow> notifyTarget en us ev = Inr []"
  by (simp add: notifyTarget_def)

lemma notifyMentioned_members:
  "notifyMentioned en us ev ms = Inr rs \<Longrightarrow>
     \<forall>r \<in> set rs. r \<in> set us \<and> shouldReceiveNotification r (e_type ev)
                  \<and> u_userId r \<in> set ms \<and> u_userId r \<noteq> e_sourceUserId ev"
proof (induction ms arbitrary: rs)
  case Nil
  then show ?case by simp
next
  case (Cons m ms)
  show ?case
  proof (cases "m = e_sourceUserId ev")
    case True
    with Cons show ?thesis by simp
  next
    case False
    with Cons.prems obtain found rest where
      f: "findByUserId en us m = Inr found" and r: "notifyMentioned en us ev ms = Inr rest"
      by (auto split: sum.splits)
    from Cons.IH [OF r] have ih: "\<forall>r \<in> set rest. r \<in> set us
        \<and> shouldReceiveNotification r (e_type ev) \<and> u_userId r \<in> set ms
        \<and> u_userId r \<noteq> e_sourceUserId ev" .
    show ?thesis
    proof (cases found)
      case None
      with Cons.prems False f r ih show ?thesis by simp
    next
      case (Some mu)
      with f have mu: "mu \<in> set us" "u_userId mu = m"
        by (auto simp: findByUserId_def find_Some_iff split: if_splits)
      with Cons.prems False f r ih Some show ?thesis
        by (auto split: if_splits)
    qed
  qed
qed

lemma recipients_target:
  "e_type ev = ''LIKE'' \<or> e_type ev = ''COMMENT'' \<or> e_type ev = ''FOLLOW'' \<or> e_type ev = ''SHARE''
     \<Longrightarrow> getNotificationRecipients en us ev su = notifyTarget en us ev"
  unfolding getNotificationRecipients_def by auto

lemma recipients_post:
  "e_type ev = ''POST_CREATE'' \<Longrightarrow>
     getNotificationRecipients en us ev su =
       (if rejects en (UserFind (e_sourceUserId ev))
        then Inl (DbError (UserFind (e_sourceUserId ev)))
        else Inr (filter (\<lambda>follower. shouldReceiveNotification follower (e_type ev))
                    (filter (\<lambda>u. e_sourceUserId ev \<in> set (following u)) us)))"
  unfolding getNotificationRecipients_def by simp

lemma recipients_mention:
  "e_type ev = ''MENTION'' \<Longrightarrow>
     getNotificationRecipients en us ev su =
       (case d_mentionedUsers (e_data ev) of
          None \<Rightarrow> Inr []
        | Some ms \<Rightarrow> notifyMentioned en us ev ms)"
  unfolding getNotificationRecipients_def by simp

lemma recipients_other:
  "e_type ev \<noteq> ''LIKE'' \<Longrightarrow> e_type ev \<noteq> ''COMMENT'' \<Longrightarrow> e_type ev \<noteq> ''FOLLOW'' \<Longrightarrow>
   e_type ev \<noteq> ''SHARE'' \<Longrightarrow> e_type ev \<noteq> ''POST_CREATE'' \<Longrightarrow> e_type ev \<noteq> ''MENTION'' \<Longrightarrow>
     getNotificationRecipients en us ev su = Inr []"
  unfolding getNotificationRecipients_def by simp

lemma recipients_members:
  assumes "getNotificationRecipients en us ev su = Inr rs"
  shows "\<forall>r \<in> set rs. r \<in> set us \<and> shouldReceiveNotification r (e_type ev)"
proof -
  consider (target) "e_type ev = ''LIKE'' \<or> e_type ev = ''COMMENT'' \<or> e_type ev = ''FOLLOW''
                       \<or> e_type ev = ''SHARE''"
    | (post) "e_type ev = ''POST_CREATE''"
    | (mention) "e_type ev = ''MENTION''"
    | (other) "e_type ev \<noteq> ''LIKE''" "e_type ev \<noteq> ''COMMENT''" "e_type ev \<noteq> ''FOLLOW''"
        "e_type ev \<noteq> ''SHARE''" "e_type ev \<noteq> ''POST_CREATE''" "e_type ev \<noteq> ''MENTION''"
    by blast
  then show ?thesis
  proof cases
    case target
    from assms recipients_target [OF target] have "notifyTarget en us ev = Inr rs" by simp
    from notifyTarget_members [OF this] show ?thesis by blast
  next
    case post
    from assms recipients_post [OF post, of en us su] show ?thesis
      by (auto split: if_splits)
  next
    case mention
    show ?thesis
    proof (cases "d_mentionedUsers (e_data ev)")
      case None
      with assms recipients_mention [OF mention, of en us su] show ?thesis by simp
    next
      case (Some ms)
      with assms recipients_mention [OF mention, of en us su]
      have "notifyMentioned en us ev ms = Inr rs" by simp
      from notifyMentioned_members [OF this] show ?thesis by blast
    qed
  next
    case other
    from assms recipients_other [OF other, of en us su] show ?thesis by simp
  qed
qed





text \<open>
  Self-exclusion in the recipient resolver. A LIKE, COMMENT or SHARE event whose
  target is its own source user has no recipients, and processing it writes no
  notification and returns none. For a MENTION event no recipient is the
  source user, also when the source user is among \<^verbatim>\<open>data.mentionedUsers\<close>, and
  none of the notifications that processing writes is addressed to the source
  user.
\<close>

lemma self_exclusion:
  "(e_type ev \<in> {''LIKE'', ''COMMENT'', ''SHARE''} \<and> e_targetUserId ev = Some (e_sourceUserId ev) \<longrightarrow>
      getNotificationRecipients en (users w) ev su = Inr []
      \<and> notifications (snd (processEvent en w ev)) = notifications w
      \<and> (\<forall>ns. fst (processEvent en w ev) = Inr (Some ns) \<longrightarrow> ns = []))
   \<and> (e_type ev = ''MENTION'' \<longrightarrow>
        (\<forall>rs. getNotificationRecipients en (users w) ev su = Inr rs \<longrightarrow>
           (\<forall>r \<in> set rs. u_userId r \<noteq> e_sourceUserId ev))
        \<and> (\<forall>n \<in> set (notifications (snd (processEvent en w ev))).
             n \<in> set (notifications w) \<or> n_userId n \<noteq> e_sourceUserId ev))"
proof (intro conjI impI)
  assume a: "e_type ev \<in> {''LIKE'', ''COMMENT'', ''SHARE''} \<and> e_targetUserId ev = Some (e_sourceUserId ev)"
  then have nt: "\<And>us. notifyTarget en us ev = Inr []" by (simp add: notifyTarget_self)
  from a have "e_type ev = ''LIKE'' \<or> e_type ev = ''COMMENT'' \<or> e_type ev = ''FOLLOW''
      \<or> e_type ev = ''SHARE''" by auto
  from recipients_target [OF this] nt
  have g: "\<And>su. getNotificationRecipients en (users w) ev su = Inr []" by simp
  then show "getNotificationRecipients en (users w) ev su = Inr []" .
  from processEvent_frame [of en w ev] obtain ns where
    ns: "notifications (snd (processEvent en w ev)) = notifications w @ ns"
      "\<forall>ns'. fst (processEvent en w ev) = Inr (Some ns') \<longrightarrow> ns' = ns"
      "ns \<noteq> [] \<longrightarrow> (\<exists>su rs. getNotificationRecipients en (users w) ev su = Inr rs
             \<and> (\<forall>n \<in> set ns. \<exists>r \<in> set rs. \<exists>nid. n = newNotification en nid ev su r))"
    by blast
  have "ns = []"
  proof (rule ccontr)
    assume "ns \<noteq> []"
    with ns(3) g obtain n where "n \<in> set ns" "\<exists>r \<in> set []. \<exists>nid. n = newNotification en nid ev su r"
      by (cases ns) auto
    then show False by simp
  qed
  with ns show "notifications (snd (processEvent en w ev)) = notifications w"
    "\<forall>ns. fst (processEvent en w ev) = Inr (Some ns) \<longrightarrow> ns = []" by simp_all
next
  assume m: "e_type ev = ''MENTION''"
  have g: "\<And>su rs. getNotificationRecipients en (users w) ev su = Inr rs \<Longrightarrow>
             \<forall>r \<in> set rs. u_userId r \<noteq> e_sourceUserId ev"
    using recipients_mention [OF m, of en "users w"] notifyMentioned_members [of en "users w" ev]
    by (auto split: option.splits)
  then show "\<forall>rs. getNotificationRecipients en (users w) ev su = Inr rs \<longrightarrow>
           (\<forall>r \<in> set rs. u_userId r \<noteq> e_sourceUserId ev)" by blast
  from processEvent_frame [of en w ev] obtain ns where
    ns: "notifications (snd (processEvent en w ev)) = notifications w @ ns"
      "ns \<noteq> [] \<longrightarrow> (\<exists>su rs. getNotificationRecipients en (users w) ev su = Inr rs
             \<and> (\<forall>n \<in> set ns. \<exists>r \<in> set rs. \<exists>nid. n = newNotification en nid ev su r))"
    by blast
  show "\<forall>n \<in> set (notifications (snd (processEvent en w ev))).
             n \<in> set (notifications w) \<or> n_userId n \<noteq> e_sourceUserId ev"
  proof
    fix n assume "n \<in> set (notifications (snd (processEvent en w ev)))"
    with ns(1) consider "n \<in> set (notifications w)" | "n \<in> set ns" by auto
    then show "n \<in> set (notifications w) \<or> n_userId n \<noteq> e_sourceUserId ev"
    proof cases
      case 1 then show ?thesis by simp
    next
      case 2
      then have "ns \<noteq> []" by auto
      with ns(2) 2 obtain su rs r nid where
        "getNotificationRecipients en (users w) ev su = Inr rs" "r \<in> set rs"
        "n = newNotification en nid ev su r" by blast
      with g show ?thesis by (auto simp: newNotification_def)
    qed
  qed
qed

lemma self_exclusion_example:
  "e_type selfLike = ''LIKE'' \<and> e_targetUserId selfLike = Some (e_sourceUserId selfLike)
   \<and> notifications (snd (processEvent (calmEnv 2000) sampleWorld selfLike)) = []
   \<and> e_type mentionEvent = ''MENTION'' \<and> e_sourceUserId mentionEvent = ''user2''
   \<and> d_mentionedUsers (e_data mentionEvent) = Some [''user1'', ''user2'', ''user3'']
   \<and> map n_userId (notifications (snd (processEvent (calmEnv 2000) sampleWorld mentionEvent)))
       = [''user1'', ''user3'']
   \<and> ''user2'' \<notin> n_userId ` set (notifications (snd (processEvent (calmEnv 2000) sampleWorld
                                                          mentionEvent)))"
proof -
  have a: "e_type selfLike \<in> {''LIKE'', ''COMMENT'', ''SHARE''}
           \<and> e_targetUserId selfLike = Some (e_sourceUserId selfLike)"
    by (simp add: selfLike_def newEvent_def)
  have a0: "e_type selfLike = ''LIKE''" by (simp add: selfLike_def newEvent_def)
  have b: "e_type mentionEvent = ''MENTION''" "e_sourceUserId mentionEvent = ''user2''"
    "d_mentionedUsers (e_data mentionEvent) = Some [''user1'', ''user2'', ''user3'']"
    by (simp_all add: mentionEvent_def newEvent_def noData_def)
  have c: "notifications sampleWorld = []" by (simp add: sampleWorld_def)
  have d: "map n_userId (notifications (snd (processEvent (calmEnv 2000) sampleWorld mentionEvent)))
       = [''user1'', ''user3'']"
    by (simp add: eval_defs sampleWorld_def mentionEvent_def)
  from conjunct1 [OF self_exclusion [of selfLike "calmEnv 2000" sampleWorld alex]] a
  have "getNotificationRecipients (calmEnv 2000) (users sampleWorld) selfLike alex = Inr []
      \<and> notifications (snd (processEvent (calmEnv 2000) sampleWorld selfLike))
          = notifications sampleWorld
      \<and> (\<forall>ns. fst (processEvent (calmEnv 2000) sampleWorld selfLike) = Inr (Some ns) \<longrightarrow> ns = [])"
    by (rule mp)
  with c have e: "notifications (snd (processEvent (calmEnv 2000) sampleWorld selfLike)) = []"
    by simp
  from conjunct2 [OF self_exclusion [of mentionEvent "calmEnv 2000" sampleWorld priya]] b(1)
  have "(\<forall>rs. getNotificationRecipients (calmEnv 2000) (users sampleWorld) mentionEvent priya
                = Inr rs \<longrightarrow> (\<forall>r \<in> set rs. u_userId r \<noteq> e_sourceUserId mentionEvent))
        \<and> (\<forall>n \<in> set (notifications (snd (processEvent (calmEnv 2000) sampleWorld mentionEvent))).
             n \<in> set (notifications sampleWorld) \<or> n_userId n \<noteq> e_sourceUserId mentionEvent)"
    by (rule mp)
  with b(2) c
  have f: "''user2'' \<notin> n_userId ` set (notifications (snd (processEvent (calmEnv 2000) sampleWorld
                                                          mentionEvent)))"
    by auto
  from a a0 b d e f show ?thesis by simp
qed

text \<open>
  Claim C5, at the specification's example. The request carries
  \<^verbatim>\<open>data.mentionedUsers\<close> = user1, user2, user3 with source user2. The document
  that \<^verbatim>\<open>POST /api/events\<close> builds from it has no \<^verbatim>\<open>data.mentionedUsers\<close>, since
  the Event schema declares no such path: the route answers 201, the event is
  stored and marked processed with an empty \<^verbatim>\<open>notificationsGenerated\<close>, and no
  notification is written. The plain object with the field, passed to
  \<^verbatim>\<open>processEvent\<close> directly, notifies user1 and user3 as the claim says.
\<close>

theorem mention_example_dropped:
  "r_data mentionRequest
     = Some (noData\<lparr> d_postId := Some ''post999'',
                     d_mentionedUsers := Some [''user1'', ''user2'', ''user3''] \<rparr>)
   \<and> d_mentionedUsers (e_data (newEventDocument (calmEnv 2000) sampleWorld mentionRequest)) = None
   \<and> fst (createEventRoute (calmEnv 2000) sampleWorld mentionRequest) = 201
   \<and> map e_type (events (snd (createEventRoute (calmEnv 2000) sampleWorld mentionRequest)))
       = [''MENTION'']
   \<and> map processed (events (snd (createEventRoute (calmEnv 2000) sampleWorld mentionRequest)))
       = [True]
   \<and> map notificationsGenerated
         (events (snd (createEventRoute (calmEnv 2000) sampleWorld mentionRequest))) = [[]]
   \<and> notifications (snd (createEventRoute (calmEnv 2000) sampleWorld mentionRequest)) = []
   \<and> d_mentionedUsers (e_data mentionEvent) = Some [''user1'', ''user2'', ''user3'']
   \<and> map n_userId (notifications (snd (processEvent (calmEnv 2000) sampleWorld mentionEvent)))
       = [''user1'', ''user3'']"
proof -
  have a: "r_data mentionRequest
     = Some (noData\<lparr> d_postId := Some ''post999'',
                     d_mentionedUsers := Some [''user1'', ''user2'', ''user3''] \<rparr>)"
    by (simp add: mentionRequest_def)
  have b: "d_mentionedUsers (e_data (newEventDocument (calmEnv 2000) sampleWorld mentionRequest))
             = None"
    by (simp add: newEventDocument_def castEventData_def)
  have c: "fst (createEventRoute (calmEnv 2000) sampleWorld mentionRequest) = 201"
    by (simp add: createEventRoute_def validEventTypes_def mentionRequest_def calmEnv_def Let_def)
  have d: "snd (createEventRoute (calmEnv 2000) sampleWorld mentionRequest)
             = sampleWorld
                 \<lparr> uuidCalls := 1,
                   events := [(newEventDocument (calmEnv 2000) sampleWorld mentionRequest)
                                \<lparr> processed := True, notificationsGenerated := [] \<rparr>] \<rparr>"
    by (simp add: createEventRoute_def validEventTypes_def newEventDocument_def
          castEventData_def mentionRequest_def eval_defs sampleWorld_def)
  have e: "e_type (newEventDocument (calmEnv 2000) sampleWorld mentionRequest) = ''MENTION''"
    by (simp add: newEventDocument_def mentionRequest_def)
  have f: "notifications sampleWorld = []" by (simp add: sampleWorld_def)
  have g: "d_mentionedUsers (e_data mentionEvent) = Some [''user1'', ''user2'', ''user3'']"
    by (simp add: mentionEvent_def newEvent_def noData_def)
  have h: "map n_userId (notifications (snd (processEvent (calmEnv 2000) sampleWorld mentionEvent)))
       = [''user1'', ''user3'']"
    by (simp add: eval_defs sampleWorld_def mentionEvent_def)
  from a b c d e f g h show ?thesis by simp
qed

section \<open>The user collection and SHARE events\<close>

lemma modifyUser_preserves:
  assumes "\<forall>u \<in> set us. P u" and "\<And>u. P u \<Longrightarrow> P (f u)"
  shows "\<forall>u \<in> set (modifyUser uid f us). P u"
  using assms by (induction us) auto

lemma findByUserId_member:
  "findByUserId en us uid = Inr (Some u) \<Longrightarrow> u \<in> set us \<and> u_userId u = uid"
  by (auto simp: findByUserId_def find_Some_iff split: if_splits)

lemma createUserRoute_ok:
  "\<forall>u \<in> set us. typesOk u \<Longrightarrow> \<forall>u \<in> set (snd (createUserRoute en us uid uname mail)). typesOk u"
  by (auto simp: createUserRoute_def insertUser_def validateUser_def typesOk_def
           split: if_splits sum.splits)

lemma updatePreferencesRoute_ok:
  assumes "\<forall>u \<in> set us. typesOk u"
  shows "\<forall>u \<in> set (snd (updatePreferencesRoute en us uid prefs)). typesOk u"
proof (cases prefs)
  case None
  with assms show ?thesis by (simp add: updatePreferencesRoute_def)
next
  case (Some p)
  show ?thesis
  proof (cases "findByUserId en us uid")
    case (Inl err)
    with Some assms show ?thesis by (simp add: updatePreferencesRoute_def)
  next
    case (Inr found)
    show ?thesis
    proof (cases found)
      case None
      with Some Inr assms show ?thesis by (simp add: updatePreferencesRoute_def)
    next
      case u: (Some u)
      show ?thesis
      proof (cases "updatePreferences en us u p")
        case (Inl err)
        with Some Inr u assms show ?thesis by (simp add: updatePreferencesRoute_def)
      next
        case res: (Inr us')
        then have v: "validTypes (notificationTypes (mergePreferences (u_preferences u) p))"
          and us': "us' = modifyUser (u_userId u)
                      (\<lambda>v. v\<lparr>u_preferences := mergePreferences (u_preferences u) p\<rparr>) us"
          by (auto simp: updatePreferences_def Let_def split: if_splits)
        have "\<forall>x \<in> set us'. typesOk x"
          unfolding us' using assms v
          by (intro modifyUser_preserves) (simp_all add: typesOk_def)
        with Some Inr u res show ?thesis by (simp add: updatePreferencesRoute_def)
      qed
    qed
  qed
qed

lemma followRoute_ok:
  assumes "\<forall>u \<in> set us. typesOk u"
  shows "\<forall>u \<in> set (snd (followRoute en us uid target)). typesOk u"
proof -
  have m: "\<And>i g xs. \<forall>u \<in> set xs. typesOk u \<Longrightarrow>
             \<forall>u \<in> set (modifyUser i (\<lambda>v. v\<lparr>following := g\<rparr>) xs). typesOk u"
    "\<And>i g xs. \<forall>u \<in> set xs. typesOk u \<Longrightarrow>
             \<forall>u \<in> set (modifyUser i (\<lambda>v. v\<lparr>followers := g\<rparr>) xs). typesOk u"
    by (rule modifyUser_preserves; simp add: typesOk_def)+
  show ?thesis
    using assms m(1) [OF assms] m(2) [OF m(1) [OF assms]]
    by (simp add: followRoute_def Let_def split: sum.splits option.splits)
qed

lemma unfollowRoute_ok:
  assumes "\<forall>u \<in> set us. typesOk u"
  shows "\<forall>u \<in> set (snd (unfollowRoute en us uid target)). typesOk u"
proof -
  have m: "\<And>i g xs. \<forall>u \<in> set xs. typesOk u \<Longrightarrow>
             \<forall>u \<in> set (modifyUser i (\<lambda>v. v\<lparr>following := g\<rparr>) xs). typesOk u"
    "\<And>i g xs. \<forall>u \<in> set xs. typesOk u \<Longrightarrow>
             \<forall>u \<in> set (modifyUser i (\<lambda>v. v\<lparr>followers := g\<rparr>) xs). typesOk u"
    by (rule modifyUser_preserves; simp add: typesOk_def)+
  show ?thesis
    using assms m(1) [OF assms] m(2) [OF m(1) [OF assms]]
    by (simp add: unfollowRoute_def Let_def split: sum.splits option.splits)
qed

lemma seedUsers_ok:
  "\<forall>u \<in> set us. typesOk u \<Longrightarrow> \<forall>u \<in> set (seedUsers en us). typesOk u"
  by (auto simp: seedUsers_def typesOk_def validateUser_def list_all_iff)

lemma reachable_typesOk:
  "reachableUsers us \<Longrightarrow> \<forall>u \<in> set us. typesOk u"
proof (induction rule: reachableUsers.induct)
  case initial
  show ?case by simp
next
  case (created us en uid uname mail)
  from created.IH show ?case by (rule createUserRoute_ok)
next
  case (updated us en uid prefs)
  from updated.IH show ?case by (rule updatePreferencesRoute_ok)
next
  case (followed us en uid target)
  from followed.IH show ?case by (rule followRoute_ok)
next
  case (unfollowed us en uid target)
  from unfollowed.IH show ?case by (rule unfollowRoute_ok)
next
  case (seeded us en)
  from seeded.IH show ?case by (rule seedUsers_ok)
next
  case (cleared us en)
  from cleared.IH show ?case by (simp add: clearUsers_def)
qed

lemma share_not_enumerated: "''SHARE'' \<notin> set notificationTypesEnum"
  by (simp add: notificationTypesEnum_def)

lemma typesOk_no_share: "typesOk u \<Longrightarrow> \<not> shouldReceiveNotification u ''SHARE''"
  using share_not_enumerated
  by (auto simp: typesOk_def validTypes_def list_all_iff shouldReceiveNotification_def)

text \<open>
  Claim C9. In a world whose user collection was produced by the system's own
  writers (the user routes, the seeding and the clearing), a SHARE event has no
  recipients, and processing it writes no notification and returns none: every
  stored \<^verbatim>\<open>preferences.notificationTypes\<close> lies within the schema's enumeration,
  SHARE is neither in the enumeration nor in the default, and a recipient is
  kept only when the event's type is in the user's list.
\<close>

theorem share_never_notifies:
  assumes "reachableUsers (users w)" and "e_type ev = ''SHARE''"
  shows "notifications (snd (processEvent en w ev)) = notifications w
         \<and> (\<forall>ns. fst (processEvent en w ev) = Inr (Some ns) \<longrightarrow> ns = [])
         \<and> (\<forall>rs. getNotificationRecipients en (users w) ev su = Inr rs \<longrightarrow> rs = [])
         \<and> (\<forall>u \<in> set (users w).
               set (notificationTypes (u_preferences u)) \<subseteq> set notificationTypesEnum
               \<and> \<not> shouldReceiveNotification u ''SHARE'')
         \<and> ''SHARE'' \<notin> set notificationTypesEnum
         \<and> ''SHARE'' \<notin> set (notificationTypes defaultPreferences)
         \<and> reachableUsers (users (snd (processEvent en w ev)))"
proof -
  from assms(1) have ok: "\<forall>u \<in> set (users w). typesOk u" by (rule reachable_typesOk)
  have g: "\<And>su rs. getNotificationRecipients en (users w) ev su = Inr rs \<Longrightarrow> rs = []"
  proof -
    fix su rs assume r: "getNotificationRecipients en (users w) ev su = Inr rs"
    show "rs = []"
    proof (cases rs)
      case Nil then show ?thesis .
    next
      case (Cons x xs)
      with recipients_members [OF r] assms(2)
      have "x \<in> set (users w)" "shouldReceiveNotification x ''SHARE''" by auto
      with ok typesOk_no_share show ?thesis by blast
    qed
  qed
  from processEvent_frame [of en w ev] obtain ns where
    ns: "users (snd (processEvent en w ev)) = users w"
      "notifications (snd (processEvent en w ev)) = notifications w @ ns"
      "\<forall>ns'. fst (processEvent en w ev) = Inr (Some ns') \<longrightarrow> ns' = ns"
      "ns \<noteq> [] \<longrightarrow> (\<exists>su rs. getNotificationRecipients en (users w) ev su = Inr rs
             \<and> (\<forall>n \<in> set ns. \<exists>r \<in> set rs. \<exists>nid. n = newNotification en nid ev su r))"
    by blast
  have "ns = []"
  proof (rule ccontr)
    assume ne: "ns \<noteq> []"
    with ns(4) obtain su rs where r: "getNotificationRecipients en (users w) ev su = Inr rs"
      and m: "\<forall>n \<in> set ns. \<exists>r \<in> set rs. \<exists>nid. n = newNotification en nid ev su r" by blast
    from g [OF r] m ne show False by (cases ns) auto
  qed
  with ns assms(1) g ok typesOk_no_share share_not_enumerated show ?thesis
    by (auto simp: typesOk_def validTypes_def list_all_iff defaultPreferences_def)
qed

theorem share_never_notifies_witness:
  "reachableUsers (users sampleWorld) \<and> e_type shareEvent = ''SHARE''
   \<and> e_targetUserId shareEvent = Some ''user1'' \<and> e_sourceUserId shareEvent = ''user3''
   \<and> processEvent (calmEnv 2000) sampleWorld shareEvent = (Inr (Some []), sampleWorld)"
proof -
  have "seedUsers (calmEnv 0) [] = sampleUsers"
    by (simp add: seedUsers_def calmEnv_def sampleUsers_def newUser_def validateUser_def
          validTypes_def notificationTypesEnum_def defaultPreferences_def)
  with reachableUsers.seeded [OF reachableUsers.initial, of "calmEnv 0"]
  have r: "reachableUsers (users sampleWorld)" by (simp add: sampleWorld_def)
  have s: "e_type shareEvent = ''SHARE''" "e_targetUserId shareEvent = Some ''user1''"
    "e_sourceUserId shareEvent = ''user3''"
    by (simp_all add: shareEvent_def newEvent_def)
  have f: "findByUserId (calmEnv 2000) (users sampleWorld) (e_sourceUserId shareEvent)
             = Inr (Some rohit)"
    by (simp add: findByUserId_def calmEnv_def sampleWorld_def sampleUsers_def newUser_def
          rohit_def shareEvent_def newEvent_def)
  have u: "\<not> rejects (calmEnv 2000) (EventFindOneAndUpdate (eventId shareEvent))"
    by (simp add: calmEnv_def)
  have e: "events sampleWorld = []" by (simp add: sampleWorld_def)
  from share_never_notifies [OF r s(1), of "calmEnv 2000" rohit]
  have g: "\<forall>rs. getNotificationRecipients (calmEnv 2000) (users sampleWorld) shareEvent rohit
             = Inr rs \<longrightarrow> rs = []" by blast
  have "\<exists>rs. getNotificationRecipients (calmEnv 2000) (users sampleWorld) shareEvent rohit = Inr rs"
    using recipients_target [of shareEvent "calmEnv 2000" "users sampleWorld" rohit] s
    by (simp add: notifyTarget_def findByUserId_def calmEnv_def split: option.splits)
  with g have "getNotificationRecipients (calmEnv 2000) (users sampleWorld) shareEvent rohit = Inr []"
    by blast
  with f u e have "processEvent (calmEnv 2000) sampleWorld shareEvent = (Inr (Some []), sampleWorld)"
    by (simp add: processEvent_def)
  with r s show ?thesis by simp
qed

section \<open>A missing source user\<close>




section \<open>The deduplication window\<close>

lemma recentDuplicate_iff:
  "recentDuplicate t ev su tu n \<longleftrightarrow> sameCause ev su tu n \<and> t - 300000 \<le> n_timestamp n"
  by (auto simp: recentDuplicate_def sameCause_def fiveMinutes_def)

lemma newNotification_sameCause:
  "sameCause ev su tu (newNotification en nid ev su tu)"
  by (simp add: sameCause_def newNotification_def)

text \<open>
  Claim C1. When the duplicate query is not rejected: if a notification with the
  same recipient, source user, type and \<^verbatim>\<open>data.postId\<close> exists whose timestamp is
  not more than five minutes (300000 ms) before the clock reading, then
  \<^verbatim>\<open>createNotification\<close> returns null without an error and leaves the world as
  it is; if every such notification is older than that and the save is not
  rejected, it appends a new unread notification for the same tuple,
  timestamped with the clock reading. Two likes of the same post four minutes
  apart leave one notification, six minutes apart two.
\<close>

theorem dedup_window:
  assumes "\<not> rejects en (NotificationFindOne (u_userId tu))"
  shows "((\<exists>n \<in> set (notifications w). sameCause ev su tu n \<and> now en - 300000 \<le> n_timestamp n) \<longrightarrow>
            createNotification en w ev su tu = (Inr None, w))
         \<and> ((\<forall>n \<in> set (notifications w). sameCause ev su tu n \<longrightarrow> n_timestamp n < now en - 300000)
              \<and> \<not> rejects en (NotificationSave (u_userId tu)) \<longrightarrow>
            (\<exists>n'. createNotification en w ev su tu
                     = (Inr (Some n'),
                        w\<lparr>uuidCalls := Suc (uuidCalls w),
                          notifications := notifications w @ [n']\<rparr>)
                 \<and> sameCause ev su tu n' \<and> n_timestamp n' = now en \<and> n_status n' = Unread
                 \<and> relatedEventId n' = Some (eventId ev)))"
proof (intro conjI impI)
  assume "\<exists>n \<in> set (notifications w). sameCause ev su tu n \<and> now en - 300000 \<le> n_timestamp n"
  then have "\<exists>n \<in> set (notifications w). recentDuplicate (now en) ev su tu n"
    by (simp add: recentDuplicate_iff)
  then obtain d where "find (recentDuplicate (now en) ev su tu) (notifications w) = Some d"
    by (cases "find (recentDuplicate (now en) ev su tu) (notifications w)")
       (auto simp: find_None_iff)
  with assms show "createNotification en w ev su tu = (Inr None, w)"
    by (simp add: createNotification_def)
next
  assume a: "(\<forall>n \<in> set (notifications w). sameCause ev su tu n \<longrightarrow> n_timestamp n < now en - 300000)
              \<and> \<not> rejects en (NotificationSave (u_userId tu))"
  then have "\<not> (\<exists>n \<in> set (notifications w). recentDuplicate (now en) ev su tu n)"
    by (auto simp: recentDuplicate_iff)
  then have "find (recentDuplicate (now en) ev su tu) (notifications w) = None"
    by (simp add: find_None_iff)
  with assms a have "createNotification en w ev su tu
      = (Inr (Some (newNotification en (uuidv4 en (uuidCalls w)) ev su tu)),
         w\<lparr>uuidCalls := Suc (uuidCalls w),
           notifications := notifications w @ [newNotification en (uuidv4 en (uuidCalls w)) ev su tu]\<rparr>)"
    by (simp add: createNotification_def Let_def)
  moreover have "n_timestamp (newNotification en (uuidv4 en (uuidCalls w)) ev su tu) = now en"
    "n_status (newNotification en (uuidv4 en (uuidCalls w)) ev su tu) = Unread"
    "relatedEventId (newNotification en (uuidv4 en (uuidCalls w)) ev su tu) = Some (eventId ev)"
    by (simp_all add: newNotification_def)
  ultimately show "\<exists>n'. createNotification en w ev su tu
                     = (Inr (Some n'),
                        w\<lparr>uuidCalls := Suc (uuidCalls w),
                          notifications := notifications w @ [n']\<rparr>)
                 \<and> sameCause ev su tu n' \<and> n_timestamp n' = now en \<and> n_status n' = Unread
                 \<and> relatedEventId n' = Some (eventId ev)"
    using newNotification_sameCause by blast
qed

theorem dedup_window_witness:
  "createNotification (calmEnv 1000) sampleWorld likeEvent rohit alex
     = (Inr (Some firstLikeNote), afterFirstLike)
   \<and> createNotification (calmEnv 241000) afterFirstLike likeAgain rohit alex
       = (Inr None, afterFirstLike)
   \<and> length (filter (sameCause likeAgain rohit alex) (notifications afterFirstLike)) = 1
   \<and> length (filter (sameCause likeAgain rohit alex)
               (notifications (snd (createNotification (calmEnv 361000) afterFirstLike
                                      likeAgain rohit alex)))) = 2"
proof -
  have r: "\<not> rejects (calmEnv 241000) (NotificationFindOne (u_userId alex))"
    "\<not> rejects (calmEnv 361000) (NotificationFindOne (u_userId alex))"
    "\<not> rejects (calmEnv 361000) (NotificationSave (u_userId alex))"
    by (simp_all add: calmEnv_def)
  have first: "createNotification (calmEnv 1000) sampleWorld likeEvent rohit alex
     = (Inr (Some firstLikeNote), afterFirstLike)"
    by (simp add: createNotification_def Let_def sampleWorld_def afterFirstLike_def
          firstLikeNote_def calmEnv_def)
  have n: "notifications afterFirstLike = [firstLikeNote]"
    by (simp add: afterFirstLike_def)
  have sc: "sameCause likeAgain rohit alex firstLikeNote"
    by (simp add: sameCause_def firstLikeNote_def newNotification_def likeAgain_def
          likeEvent_def newEvent_def noData_def)
  have ts: "n_timestamp firstLikeNote = 1000" "now (calmEnv 241000) = 241000"
    "now (calmEnv 361000) = 361000"
    by (simp_all add: firstLikeNote_def newNotification_def calmEnv_def)
  note thm1 = dedup_window [OF r(1), of afterFirstLike likeAgain rohit]
  note thm2 = dedup_window [OF r(2), of afterFirstLike likeAgain rohit]
  from thm1 n sc ts
  have within: "createNotification (calmEnv 241000) afterFirstLike likeAgain rohit alex
       = (Inr None, afterFirstLike)" by simp
  from thm2 n sc ts r(3) obtain n' where
    "createNotification (calmEnv 361000) afterFirstLike likeAgain rohit alex
       = (Inr (Some n'), afterFirstLike\<lparr>uuidCalls := Suc (uuidCalls afterFirstLike),
                           notifications := notifications afterFirstLike @ [n']\<rparr>)"
    "sameCause likeAgain rohit alex n'"
    by auto
  with n sc have "length (filter (sameCause likeAgain rohit alex)
               (notifications (snd (createNotification (calmEnv 361000) afterFirstLike
                                      likeAgain rohit alex)))) = 2"
    by simp
  with first within n sc show ?thesis by simp
qed

section \<open>Marking an event processed\<close>










section \<open>The recovery sweep\<close>















end
